theory Spec2Isabelle
  imports Main "HOL-Library.Word" "HOL-Library.Multiset" "HOL-Library.Sublist"
begin

section \<open>Boot script controller of the boot service\<close>

text \<open>
  A shallow embedding of \<^verbatim>\<open>pkg/controllers/bootscript/controller.go\<close>, of the
  flexible controller's \<^verbatim>\<open>GenerateBootScriptWithFallback\<close> and of
  \<^verbatim>\<open>BootConfiguration.Validate\<close>.  Go strings are byte strings (\<open>string\<close>),
  Go's \<^verbatim>\<open>int\<close> is modelled by \<open>int\<close> (scores and priorities are only added in
  steps of at most 100 and compared, far from the 64-bit bounds), \<^verbatim>\<open>int32\<close> by
  \<open>32 word\<close> read through \<open>sint\<close>.  The controller's own errors are a datatype
  printed by \<open>errorString\<close>; an error of a collaborator is its message.  Logging is
  not modelled.
\<close>

subsection \<open>Library functions of Go used by the controller\<close>

text \<open>
  \<^verbatim>\<open>strings.EqualFold\<close>: equality under simple case folding.  The model folds the
  ASCII letters and compares every other byte exactly; Go also folds letters outside
  ASCII, which MAC addresses do not contain.
\<close>

definition foldByte :: "char \<Rightarrow> char" where
  "foldByte c =
     (let n = (of_char c :: nat) in if 65 \<le> n \<and> n \<le> 90 then char_of (n + 32) else c)"

definition EqualFold :: "string \<Rightarrow> string \<Rightarrow> bool" where
  "EqualFold s t = (map foldByte s = map foldByte t)"

text \<open>
  \<^verbatim>\<open>strconv.Atoi\<close> on a 64-bit platform: an optional sign followed by at least one
  decimal digit.  A syntax error returns 0, a value outside the range of \<^verbatim>\<open>int\<close>
  returns the nearest bound, both with an error.
\<close>

datatype NumError = ErrSyntax | ErrRange

definition isDigit :: "char \<Rightarrow> bool" where
  "isDigit c = (let n = (of_char c :: nat) in 48 \<le> n \<and> n \<le> 57)"

definition digitsValue :: "string \<Rightarrow> int" where
  "digitsValue ds = fold (\<lambda>ch n. n * 10 + (int (of_char ch) - 48)) ds 0"

definition Atoi :: "string \<Rightarrow> int \<times> NumError option" where
  "Atoi s =
     (if s = [] then (0, Some ErrSyntax)
      else
        let neg = (hd s = CHR ''-'');
            ds = (if hd s = CHR ''-'' \<or> hd s = CHR ''+'' then tl s else s)
        in if ds = [] then (0, Some ErrSyntax)
           else if list_ex (\<lambda>ch. \<not> isDigit ch) ds then (0, Some ErrSyntax)
           else
             let un = digitsValue ds
             in if \<not> neg \<and> 2 ^ 63 \<le> un then (2 ^ 63 - 1, Some ErrRange)
                else if neg \<and> 2 ^ 63 < un then (- (2 ^ 63), Some ErrRange)
                else (if neg then - un else un, None))"

text \<open>
  \<^verbatim>\<open>strings.ReplaceAll s old new\<close>: every non-overlapping occurrence of \<open>old\<close>,
  scanning from the left, is replaced by \<open>new\<close>.  With an empty \<open>old\<close> Go inserts
  \<open>new\<close> before every UTF-8 sequence and at the end; the model inserts at every
  byte, which is the same on ASCII text.  The controller only passes the two
  non-empty placeholders.
\<close>

fun interleave :: "string \<Rightarrow> string \<Rightarrow> string" where
  "interleave new [] = new"
| "interleave new (c # cs) = new @ c # interleave new cs"

function replaceFrom :: "string \<Rightarrow> string \<Rightarrow> string \<Rightarrow> string" where
  "replaceFrom old new [] = []"
| "replaceFrom old new (c # cs) =
     (if old \<noteq> [] \<and> take (length old) (c # cs) = old
      then new @ replaceFrom old new (drop (length old) (c # cs))
      else c # replaceFrom old new cs)"
  by pat_completeness auto
termination
  by (relation "measure (\<lambda>(old, new, s). length s)") auto

definition ReplaceAll :: "string \<Rightarrow> string \<Rightarrow> string \<Rightarrow> string" where
  "ReplaceAll s old new = (if old = [] then interleave new s else replaceFrom old new s)"

subsection \<open>Data model\<close>

text \<open>
  The fields of \<^verbatim>\<open>node.Node\<close> that the controller reads (all under \<^verbatim>\<open>Spec\<close>);
  the group list of a node is named \<open>NodeGroups\<close> to keep it apart from the
  configuration's \<open>Groups\<close>.
\<close>

record Node =
  XName :: string
  Hostname :: string
  NID :: "32 word"
  BootMAC :: string
  NodeGroups :: "string list"

record BootConfigurationSpec =
  Hosts :: "string list"
  MACs :: "string list"
  NIDs :: "32 word list"
  Groups :: "string list"
  Profile :: string
  Kernel :: string
  Initrd :: string
  Params :: string
  Priority :: int

text \<open>
  A \<^verbatim>\<open>BootConfiguration\<close> is its embedded resource, of which only the name is read
  (\<^verbatim>\<open>GetName\<close>), and its specification; the status is never read.
\<close>

record BootConfiguration =
  Name :: string
  Spec :: BootConfigurationSpec

record configCandidate =
  config :: BootConfiguration
  score :: int

datatype IdentifierType = IdentifierXName | IdentifierNID | IdentifierMAC | IdentifierUnknown

record NodeIdentifier =
  Value :: string
  Type :: IdentifierType

subsection \<open>Scoring\<close>

definition matchesPattern :: "string \<Rightarrow> string \<Rightarrow> bool" where
  "matchesPattern pattern v = (if pattern = ''*'' then True else if pattern = v then True else False)"

text \<open>
  Each of the four loops of \<^verbatim>\<open>calculateConfigScore\<close> threads the running score;
  the group loop is nested, one pass over the node's groups per configured group.
\<close>

definition scoreHosts :: "BootConfiguration \<Rightarrow> Node \<Rightarrow> int \<Rightarrow> int" where
  "scoreHosts cfg node sc0 =
     fold (\<lambda>host sc. if matchesPattern host (XName node) \<or> matchesPattern host (Hostname node)
                      then sc + 50 else sc)
          (Hosts (Spec cfg)) sc0"

definition scoreMACs :: "BootConfiguration \<Rightarrow> Node \<Rightarrow> int \<Rightarrow> int" where
  "scoreMACs cfg node sc0 =
     fold (\<lambda>mac sc. if EqualFold mac (BootMAC node) then sc + 100 else sc) (MACs (Spec cfg)) sc0"

definition scoreNIDs :: "BootConfiguration \<Rightarrow> Node \<Rightarrow> int \<Rightarrow> int" where
  "scoreNIDs cfg node sc0 =
     fold (\<lambda>nid sc. if nid = NID node then sc + 75 else sc) (NIDs (Spec cfg)) sc0"

definition scoreGroups :: "BootConfiguration \<Rightarrow> Node \<Rightarrow> int \<Rightarrow> int" where
  "scoreGroups cfg node sc0 =
     fold (\<lambda>configGroup sc.
             fold (\<lambda>nodeGroup sc'. if configGroup = nodeGroup then sc' + 25 else sc')
                  (NodeGroups node) sc)
          (Groups (Spec cfg)) sc0"

definition calculateConfigScore :: "BootConfiguration \<Rightarrow> Node \<Rightarrow> int" where
  "calculateConfigScore cfg node =
     (let sc = scoreGroups cfg node (scoreNIDs cfg node (scoreMACs cfg node (scoreHosts cfg node 0)))
      in if sc = 0 \<and> length (Hosts (Spec cfg)) = 0 \<and> length (MACs (Spec cfg)) = 0 \<and>
            length (NIDs (Spec cfg)) = 0 \<and> length (Groups (Spec cfg)) = 0
         then 1 else sc)"

subsection \<open>Collaborators\<close>

text \<open>
  The validation package is not among the source files; its predicates are parameters
  of the model, so every theorem holds whatever they decide.
\<close>

record Validation =
  ValidateXName :: "string \<Rightarrow> bool"
  ValidateXNameOrDefault :: "string \<Rightarrow> bool"
  ValidateMAC :: "string \<Rightarrow> bool"
  ValidateURLOrPath :: "string \<Rightarrow> bool"
  ValidateURLOrPathOptional :: "string \<Rightarrow> bool"

text \<open>
  Errors of the controller.  \<open>GettingNodes\<close> and \<open>GettingBootConfigurations\<close> wrap the
  message of the client's error, \<open>NodeNotFound\<close> carries the identifier's value and
  \<open>NoMatchingConfigurations\<close> the node's XName; \<open>errorString\<close> is what \<^verbatim>\<open>%v\<close> prints.
\<close>

datatype error =
    GettingNodes string
  | NodeNotFound string
  | GettingBootConfigurations string
  | NoMatchingConfigurations string

fun errorString :: "error \<Rightarrow> string" where
  "errorString (GettingNodes msg) = ''getting nodes: '' @ msg"
| "errorString (NodeNotFound v) = ''node not found for identifier '' @ v"
| "errorString (GettingBootConfigurations msg) = ''getting boot configurations: '' @ msg"
| "errorString (NoMatchingConfigurations x) = ''no matching configurations found for node '' @ x"

text \<open>
  \<open>candidateLess\<close> is the comparison handed to \<^verbatim>\<open>sort.Slice\<close>.  Go's \<^verbatim>\<open>sort.Slice\<close>
  is not stable and its algorithm is not part of this repository: the sort is a
  parameter, and \<open>sortsCandidates\<close> is all that is assumed of it (it permutes the
  slice and leaves no later element before an earlier one).
\<close>

definition candidateLess :: "configCandidate \<Rightarrow> configCandidate \<Rightarrow> bool" where
  "candidateLess a b =
     (if score a \<noteq> score b then score a > score b
      else Priority (Spec (config a)) > Priority (Spec (config b)))"

type_synonym sortSlice =
  "(configCandidate \<Rightarrow> configCandidate \<Rightarrow> bool) \<Rightarrow> configCandidate list \<Rightarrow> configCandidate list"

definition sortsCandidates :: "sortSlice \<Rightarrow> bool" where
  "sortsCandidates srt =
     (\<forall>xs. mset (srt candidateLess xs) = mset xs \<and>
           sorted_wrt (\<lambda>a b. \<not> candidateLess b a) (srt candidateLess xs))"

text \<open>An insertion sort, one sort that meets \<open>sortsCandidates\<close>; used for concrete runs.\<close>

fun insertBy :: "('a \<Rightarrow> 'a \<Rightarrow> bool) \<Rightarrow> 'a \<Rightarrow> 'a list \<Rightarrow> 'a list" where
  "insertBy lt x [] = [x]"
| "insertBy lt x (y # ys) = (if lt y x then y # insertBy lt x ys else x # y # ys)"

definition insertionSort :: "('a \<Rightarrow> 'a \<Rightarrow> bool) \<Rightarrow> 'a list \<Rightarrow> 'a list" where
  "insertionSort lt xs = foldr (insertBy lt) xs []"

text \<open>
  The environment of one controller: the resource client's answers to \<^verbatim>\<open>GetNodes\<close>
  and \<^verbatim>\<open>GetBootConfigurations\<close> (an error message or the collection), and the parts
  of the package that are not among the source files, taken as parameters: the two
  templates, \<^verbatim>\<open>buildIPXEScript\<close> (an error message or the script) and
  \<^verbatim>\<open>generateCacheKey\<close>.
\<close>

record Env =
  validation :: Validation
  GetNodes :: "string + Node list"
  GetBootConfigurations :: "string + BootConfiguration list"
  sortSliceOf :: sortSlice
  buildIPXEScript :: "BootConfiguration \<Rightarrow> Node \<Rightarrow> string + string"
  MinimalIPXETemplate :: string
  ErrorIPXETemplate :: string
  generateCacheKey :: "string \<Rightarrow> string \<Rightarrow> string"

subsection \<open>Result cache and controller state\<close>

text \<open>
  Modelled from the spec: the script cache (\<^verbatim>\<open>ScriptCache\<close>, \<^verbatim>\<open>NewScriptCache\<close>,
  \<^verbatim>\<open>Get\<close>, \<^verbatim>\<open>Set\<close>) is not among the source files.  By the spec an entry holds
  the script, the node and configuration it was rendered for and its expiry; entries
  expire a fixed time-to-live after they are set; an entry is never returned past its
  expiry; a set overwrites the entry of its key.  Time is an integer count of
  nanoseconds, and the clock readings within one call are one instant.
\<close>

record CacheEntry =
  Script :: string
  NodeRef :: string
  ConfigName :: string
  ExpiresAt :: int

record ScriptCache =
  ttl :: int
  entries :: "string \<rightharpoonup> CacheEntry"

definition NewScriptCache :: "int \<Rightarrow> ScriptCache" where
  "NewScriptCache d = \<lparr>ttl = d, entries = Map.empty\<rparr>"

definition cacheGet :: "ScriptCache \<Rightarrow> int \<Rightarrow> string \<Rightarrow> string option" where
  "cacheGet c now key =
     (case entries c key of
        None \<Rightarrow> None
      | Some en \<Rightarrow> if ExpiresAt en < now then None else Some (Script en))"

definition cacheSet :: "ScriptCache \<Rightarrow> int \<Rightarrow> string \<Rightarrow> string \<Rightarrow> string \<Rightarrow> string \<Rightarrow> ScriptCache" where
  "cacheSet c now key script nodeRef configRef =
     c\<lparr>entries := (entries c)(key \<mapsto>
        \<lparr>Script = script, NodeRef = nodeRef, ConfigName = configRef, ExpiresAt = now + ttl c\<rparr>)\<rparr>"

text \<open>
  The calls that reach the collaborators are recorded in the state, in order: the
  call-count instrumentation of the inventory that the spec speaks of.
\<close>

datatype Call = CallGetNodes | CallGetBootConfigurations | CallProviderResolve string

record ControllerState =
  cache :: ScriptCache
  calls :: "Call list"

definition Minute :: int where
  "Minute = 60 * 1000000000"

definition NewBootScriptController :: ControllerState where
  "NewBootScriptController = \<lparr>cache = NewScriptCache (5 * Minute), calls = []\<rparr>"

subsection \<open>Identifier classification and node resolution\<close>

definition parseNodeIdentifier :: "Validation \<Rightarrow> string \<Rightarrow> NodeIdentifier" where
  "parseNodeIdentifier v identifier =
     (if ValidateXName v identifier then \<lparr>Value = identifier, Type = IdentifierXName\<rparr>
      else if snd (Atoi identifier) = None \<and> fst (Atoi identifier) \<ge> 0
           then \<lparr>Value = identifier, Type = IdentifierNID\<rparr>
      else if ValidateMAC v identifier then \<lparr>Value = identifier, Type = IdentifierMAC\<rparr>
      else \<lparr>Value = identifier, Type = IdentifierUnknown\<rparr>)"

text \<open>The scan of \<^verbatim>\<open>resolveNode\<close>: the first node that the identifier's kind selects.\<close>

fun scanNodes :: "NodeIdentifier \<Rightarrow> Node list \<Rightarrow> Node option" where
  "scanNodes ident [] = None"
| "scanNodes ident (nodeItem # rest) =
     (case Type ident of
        IdentifierXName \<Rightarrow>
          if XName nodeItem = Value ident then Some nodeItem else scanNodes ident rest
      | IdentifierNID \<Rightarrow>
          if sint (NID nodeItem) = fst (Atoi (Value ident)) then Some nodeItem
          else scanNodes ident rest
      | IdentifierMAC \<Rightarrow>
          if EqualFold (BootMAC nodeItem) (Value ident) then Some nodeItem
          else scanNodes ident rest
      | IdentifierUnknown \<Rightarrow> scanNodes ident rest)"

definition resolveNode :: "Env \<Rightarrow> ControllerState \<Rightarrow> NodeIdentifier \<Rightarrow> (error + Node) \<times> ControllerState" where
  "resolveNode e s ident =
     (let s' = s\<lparr>calls := calls s @ [CallGetNodes]\<rparr>
      in case GetNodes e of
           Inl msg \<Rightarrow> (Inl (GettingNodes msg), s')
         | Inr nodes \<Rightarrow>
             (case scanNodes ident nodes of
                Some n \<Rightarrow> (Inr n, s')
              | None \<Rightarrow> (Inl (NodeNotFound (Value ident)), s')))"

subsection \<open>Configuration matching\<close>

text \<open>
  \<^verbatim>\<open>findBestCandidate\<close>, the closure inside \<^verbatim>\<open>findBootConfiguration\<close>.  Each
  iteration of the loop has its own \<^verbatim>\<open>configItem\<close> (the loop variables of Go 1.22),
  so a candidate holds the configuration it was built from.  Sorting in place keeps the
  length of the slice; the model returns nothing should the sort parameter empty it.
\<close>

definition collectCandidates :: "BootConfiguration list \<Rightarrow> Node \<Rightarrow> string \<Rightarrow> configCandidate list" where
  "collectCandidates configs node targetProfile =
     fold (\<lambda>configItem candidates.
             let configProfile = (if Profile (Spec configItem) = [] then ''default''
                                  else Profile (Spec configItem));
                 effectiveTarget = (if targetProfile = [] then ''default'' else targetProfile)
             in if configProfile \<noteq> effectiveTarget then candidates
                else let sc = calculateConfigScore configItem node
                     in if sc > 0 then candidates @ [\<lparr>config = configItem, score = sc\<rparr>]
                        else candidates)
          configs []"

definition findBestCandidate :: "sortSlice \<Rightarrow> BootConfiguration list \<Rightarrow> Node \<Rightarrow> string \<Rightarrow> BootConfiguration option" where
  "findBestCandidate srt configs node targetProfile =
     (let candidates = collectCandidates configs node targetProfile
      in if length candidates = 0 then None
         else (case srt candidateLess candidates of
                 [] \<Rightarrow> None
               | first # _ \<Rightarrow> Some (config first)))"

definition selectConfiguration :: "sortSlice \<Rightarrow> BootConfiguration list \<Rightarrow> Node \<Rightarrow> string \<Rightarrow> error + BootConfiguration" where
  "selectConfiguration srt configs node profile =
     (case (if profile \<noteq> [] \<and> profile \<noteq> ''default''
            then findBestCandidate srt configs node profile else None) of
        Some m \<Rightarrow> Inr m
      | None \<Rightarrow>
          (case findBestCandidate srt configs node ''default'' of
             Some m \<Rightarrow> Inr m
           | None \<Rightarrow> Inl (NoMatchingConfigurations (XName node))))"

definition findBootConfiguration :: "Env \<Rightarrow> ControllerState \<Rightarrow> Node \<Rightarrow> string \<Rightarrow> (error + BootConfiguration) \<times> ControllerState" where
  "findBootConfiguration e s node profile =
     (let s' = s\<lparr>calls := calls s @ [CallGetBootConfigurations]\<rparr>
      in case GetBootConfigurations e of
           Inl msg \<Rightarrow> (Inl (GettingBootConfigurations msg), s')
         | Inr configs \<Rightarrow> (selectConfiguration (sortSliceOf e) configs node profile, s'))"

subsection \<open>Script generation\<close>

definition generateMinimalScript :: "Env \<Rightarrow> string \<Rightarrow> string" where
  "generateMinimalScript e identifier =
     ReplaceAll (MinimalIPXETemplate e) ''{{.Identifier}}'' identifier"

definition generateErrorScript :: "Env \<Rightarrow> string \<Rightarrow> string" where
  "generateErrorScript e errorMsg = ReplaceAll (ErrorIPXETemplate e) ''{{.Error}}'' errorMsg"

text \<open>
  \<^verbatim>\<open>GenerateBootScript\<close> returns the script and the error (\<open>None\<close> is Go's \<^verbatim>\<open>nil\<close>)
  together with the state it leaves.  The error of \<^verbatim>\<open>buildIPXEScript\<close> is its message.
\<close>

definition GenerateBootScript :: "Env \<Rightarrow> int \<Rightarrow> ControllerState \<Rightarrow> string \<Rightarrow> string \<Rightarrow> (string \<times> error option) \<times> ControllerState" where
  "GenerateBootScript e now s identifier profile =
     (case cacheGet (cache s) now (generateCacheKey e identifier profile) of
        Some cached \<Rightarrow> ((cached, None), s)
      | None \<Rightarrow>
          (case resolveNode e s (parseNodeIdentifier (validation e) identifier) of
             (Inl err, s1) \<Rightarrow>
               ((generateErrorScript e (''Node resolution failed: '' @ errorString err), None), s1)
           | (Inr node, s1) \<Rightarrow>
               (case findBootConfiguration e s1 node profile of
                  (Inl err, s2) \<Rightarrow> ((generateMinimalScript e identifier, None), s2)
                | (Inr cfg, s2) \<Rightarrow>
                    (case buildIPXEScript e cfg node of
                       Inl msg \<Rightarrow>
                         ((generateErrorScript e (''Script generation failed: '' @ msg), None), s2)
                     | Inr script \<Rightarrow>
                         (let configName = Name cfg;
                              cacheKey = generateCacheKey e identifier configName
                          in ((script, None),
                              s2\<lparr>cache := cacheSet (cache s2) now cacheKey script
                                             (XName node) configName\<rparr>))))))"

text \<open>
  \<^verbatim>\<open>GenerateBootScriptWithFallback\<close> of the flexible controller.  The node provider is
  \<open>None\<close> when none is configured, otherwise its \<^verbatim>\<open>ResolveNodeByIdentifier\<close> (an error
  message or the node).  \<open>now\<close> and \<open>now'\<close> are the instants of the two calls of
  \<^verbatim>\<open>GenerateBootScript\<close>.
\<close>

definition GenerateBootScriptWithFallback :: "Env \<Rightarrow> (string \<Rightarrow> string + Node) option \<Rightarrow> int \<Rightarrow> int \<Rightarrow> ControllerState \<Rightarrow> string \<Rightarrow> (string \<times> error option) \<times> ControllerState" where
  "GenerateBootScriptWithFallback e nodeProvider now now' s identifier =
     (case GenerateBootScript e now s identifier [] of
        ((script, None), s1) \<Rightarrow> ((script, None), s1)
      | ((script, Some err), s1) \<Rightarrow>
          (case nodeProvider of
             None \<Rightarrow> ((generateMinimalScript e identifier, None), s1)
           | Some resolveNodeByIdentifier \<Rightarrow>
               (let s2 = s1\<lparr>calls := calls s1 @ [CallProviderResolve identifier]\<rparr>
                in case resolveNodeByIdentifier identifier of
                     Inl msg \<Rightarrow> ((generateMinimalScript e identifier, None), s2)
                   | Inr node \<Rightarrow>
                       (case GenerateBootScript e now' s2 (XName node) [] of
                          ((script', Some err'), s3) \<Rightarrow>
                            ((generateMinimalScript e identifier, None), s3)
                        | ((script', None), s3) \<Rightarrow> ((script', None), s3)))))"

subsection \<open>Validation of a boot configuration\<close>

fun validateHosts :: "Validation \<Rightarrow> string list \<Rightarrow> string option" where
  "validateHosts v [] = None"
| "validateHosts v (host # rest) =
     (if \<not> ValidateXNameOrDefault v host then Some (''invalid host XName format: '' @ host)
      else validateHosts v rest)"

fun validateMACs :: "Validation \<Rightarrow> string list \<Rightarrow> string option" where
  "validateMACs v [] = None"
| "validateMACs v (mac # rest) =
     (if \<not> ValidateMAC v mac then Some (''invalid MAC address format: '' @ mac)
      else validateMACs v rest)"

text \<open>\<^verbatim>\<open>Validate\<close> returns the message of its error, \<open>None\<close> when it accepts.\<close>

definition Validate :: "Validation \<Rightarrow> BootConfiguration \<Rightarrow> string option" where
  "Validate v r =
     (if Kernel (Spec r) = [] then Some ''kernel field is required''
      else case validateHosts v (Hosts (Spec r)) of
        Some msg \<Rightarrow> Some msg
      | None \<Rightarrow>
         (case validateMACs v (MACs (Spec r)) of
            Some msg \<Rightarrow> Some msg
          | None \<Rightarrow>
             if \<not> ValidateURLOrPath v (Kernel (Spec r))
             then Some (''invalid kernel URL or path: '' @ Kernel (Spec r))
             else if Initrd (Spec r) \<noteq> [] \<and> \<not> ValidateURLOrPathOptional v (Initrd (Spec r))
             then Some (''invalid initrd URL or path: '' @ Initrd (Spec r))
             else if Priority (Spec r) < 0 \<or> Priority (Spec r) > 100
             then Some ''priority must be between 0 and 100''
             else if length (Hosts (Spec r)) = 0 \<and> length (MACs (Spec r)) = 0 \<and>
                     length (NIDs (Spec r)) = 0 \<and> length (Groups (Spec r)) = 0
             then Some ''at least one targeting method (hosts, macs, nids, or groups) must be specified''
             else None))"

subsection \<open>Vocabulary of the properties\<close>

text \<open>The number of entries of each targeting list that match a node.\<close>

definition matchingHosts :: "BootConfiguration \<Rightarrow> Node \<Rightarrow> nat" where
  "matchingHosts cfg node =
     length (filter (\<lambda>host. matchesPattern host (XName node) \<or> matchesPattern host (Hostname node))
                    (Hosts (Spec cfg)))"

definition matchingMACs :: "BootConfiguration \<Rightarrow> Node \<Rightarrow> nat" where
  "matchingMACs cfg node = length (filter (\<lambda>mac. EqualFold mac (BootMAC node)) (MACs (Spec cfg)))"

definition matchingNIDs :: "BootConfiguration \<Rightarrow> Node \<Rightarrow> nat" where
  "matchingNIDs cfg node = length (filter (\<lambda>nid. nid = NID node) (NIDs (Spec cfg)))"

text \<open>The pairs of a configured group and an equal entry of the node's group list.\<close>

definition matchingGroupPairs :: "BootConfiguration \<Rightarrow> Node \<Rightarrow> nat" where
  "matchingGroupPairs cfg node =
     (\<Sum>g\<leftarrow>Groups (Spec cfg). length (filter (\<lambda>h. g = h) (NodeGroups node)))"


definition noTargeting :: "BootConfiguration \<Rightarrow> bool" where
  "noTargeting cfg =
     (Hosts (Spec cfg) = [] \<and> MACs (Spec cfg) = [] \<and> NIDs (Spec cfg) = [] \<and> Groups (Spec cfg) = [])"


text \<open>Profiles: the empty profile means \<open>default\<close>.\<close>

definition effectiveProfile :: "string \<Rightarrow> string" where
  "effectiveProfile p = (if p = [] then ''default'' else p)"

text \<open>The candidates of one phase: the configurations of a profile that score above 0.\<close>

definition eligible :: "BootConfiguration list \<Rightarrow> Node \<Rightarrow> string \<Rightarrow> BootConfiguration list" where
  "eligible configs node target =
     filter (\<lambda>c. effectiveProfile (Profile (Spec c)) = effectiveProfile target \<and>
                 0 < calculateConfigScore c node) configs"

text \<open>
  The profile whose candidates decide: the requested one when it is not the default
  and has a candidate, \<open>default\<close> otherwise.
\<close>

definition decidingProfile :: "BootConfiguration list \<Rightarrow> Node \<Rightarrow> string \<Rightarrow> string" where
  "decidingProfile configs node profile =
     (if profile \<noteq> [] \<and> profile \<noteq> ''default'' \<and> eligible configs node profile \<noteq> []
      then profile else ''default'')"

text \<open>\<open>c\<close> does not beat \<open>m\<close>: a lower score, or the same score and no higher priority.\<close>

definition notBetter :: "Node \<Rightarrow> BootConfiguration \<Rightarrow> BootConfiguration \<Rightarrow> bool" where
  "notBetter node c m =
     (calculateConfigScore c node < calculateConfigScore m node \<or>
      (calculateConfigScore c node = calculateConfigScore m node \<and>
       Priority (Spec c) \<le> Priority (Spec m)))"

text \<open>
  A string that reads as a non-negative integer of Go's \<^verbatim>\<open>int\<close>: an optional sign and
  at least one decimal digit, with a value below \<open>2 ^ 63\<close>, and 0 after a minus sign.
\<close>

definition parsesNonNegative :: "string \<Rightarrow> bool" where
  "parsesNonNegative s =
     (let ds = (if take 1 s = ''-'' \<or> take 1 s = ''+'' then drop 1 s else s)
      in ds \<noteq> [] \<and> list_all isDigit ds \<and>
         (if take 1 s = ''-'' then digitsValue ds = 0 else digitsValue ds < 2 ^ 63))"

subsection \<open>Concrete inputs\<close>

definition nodeA :: Node where
  "nodeA = \<lparr>XName = ''x1000c0s0b0n0'', Hostname = ''nid000005'', NID = 5,
            BootMAC = ''aa:bb:cc:dd:ee:ff'', NodeGroups = [''compute'']\<rparr>"

definition targetNothing :: BootConfigurationSpec where
  "targetNothing = \<lparr>Hosts = [], MACs = [], NIDs = [], Groups = [], Profile = [],
                    Kernel = ''http://boot/vmlinuz'', Initrd = [], Params = [], Priority = 0\<rparr>"

definition cfgByMAC :: BootConfiguration where
  "cfgByMAC = \<lparr>Name = ''by-mac'',
               Spec = targetNothing\<lparr>MACs := [''aa:bb:cc:dd:ee:ff''], Priority := 10\<rparr>\<rparr>"

definition cfgByNID :: BootConfiguration where
  "cfgByNID = \<lparr>Name = ''by-nid'', Spec = targetNothing\<lparr>NIDs := [5], Priority := 90\<rparr>\<rparr>"



definition cfgCatchAll :: BootConfiguration where
  "cfgCatchAll = \<lparr>Name = ''catch-all'', Spec = targetNothing\<rparr>"

definition cfgGpu :: BootConfiguration where
  "cfgGpu = \<lparr>Name = ''gpu-nodes'',
             Spec = targetNothing\<lparr>MACs := [''aa:bb:cc:dd:ee:ff''], Profile := ''gpu''\<rparr>\<rparr>"

text \<open>
  Stand-ins for the parameters in the concrete runs: validators that look at the first
  byte or the length only, one-line templates, a renderer that prints the kernel, and
  a cache key that joins its two parts with a colon.
\<close>

definition exampleValidation :: Validation where
  "exampleValidation =
     \<lparr>ValidateXName = (\<lambda>s. take 1 s = ''x''),
      ValidateXNameOrDefault = (\<lambda>s. take 1 s = ''x'' \<or> s = ''default''),
      ValidateMAC = (\<lambda>s. length s = 17),
      ValidateURLOrPath = (\<lambda>s. s \<noteq> []),
      ValidateURLOrPathOptional = (\<lambda>s. True)\<rparr>"

definition exampleEnv :: "Node list \<Rightarrow> BootConfiguration list \<Rightarrow> Env" where
  "exampleEnv nodes configs =
     \<lparr>validation = exampleValidation,
      GetNodes = Inr nodes,
      GetBootConfigurations = Inr configs,
      sortSliceOf = insertionSort,
      buildIPXEScript = (\<lambda>cfg node. Inr (''kernel '' @ Kernel (Spec cfg))),
      MinimalIPXETemplate = ''echo no boot configuration for {{.Identifier}}'',
      ErrorIPXETemplate = ''echo boot script error: {{.Error}}'',
      generateCacheKey = (\<lambda>identifier name. identifier @ '':'' @ name)\<rparr>"

text \<open>A provider that resolves every identifier to \<open>nodeA\<close>.\<close>

definition exampleProvider :: "string \<Rightarrow> string + Node" where
  "exampleProvider identifier = Inr nodeA"

section \<open>Properties\<close>

subsection \<open>Scoring\<close>

lemma fold_add_if:
  "fold (\<lambda>x (sc::int). if P x then sc + k else sc) xs a = a + k * int (length (filter P xs))"
  by (induction xs arbitrary: a) (simp_all add: algebra_simps)

lemma scoreHosts_count: "scoreHosts cfg node a = a + 50 * int (matchingHosts cfg node)"
  unfolding scoreHosts_def matchingHosts_def by (rule fold_add_if)

lemma scoreMACs_count: "scoreMACs cfg node a = a + 100 * int (matchingMACs cfg node)"
  unfolding scoreMACs_def matchingMACs_def by (rule fold_add_if)

lemma scoreNIDs_count: "scoreNIDs cfg node a = a + 75 * int (matchingNIDs cfg node)"
  unfolding scoreNIDs_def matchingNIDs_def by (rule fold_add_if)

lemma fold_groups:
  "fold (\<lambda>configGroup sc.
           fold (\<lambda>nodeGroup (sc'::int). if configGroup = nodeGroup then sc' + 25 else sc') ngs sc)
        gs a
   = a + 25 * int (\<Sum>g\<leftarrow>gs. length (filter (\<lambda>h. g = h) ngs))"
  by (induction gs arbitrary: a) (simp_all add: fold_add_if algebra_simps)

lemma scoreGroups_count: "scoreGroups cfg node a = a + 25 * int (matchingGroupPairs cfg node)"
  unfolding scoreGroups_def matchingGroupPairs_def by (rule fold_groups)




lemma calculateConfigScore_sum:
  "calculateConfigScore cfg node =
     (let sc = 50 * int (matchingHosts cfg node) + 100 * int (matchingMACs cfg node)
               + 75 * int (matchingNIDs cfg node) + 25 * int (matchingGroupPairs cfg node)
      in if sc = 0 \<and> noTargeting cfg then 1 else sc)"
  by (simp add: calculateConfigScore_def Let_def noTargeting_def scoreHosts_count
      scoreMACs_count scoreNIDs_count scoreGroups_count)

lemma noTargeting_counts:
  "noTargeting cfg \<Longrightarrow> matchingHosts cfg node = 0 \<and> matchingMACs cfg node = 0 \<and>
     matchingNIDs cfg node = 0 \<and> matchingGroupPairs cfg node = 0"
  by (simp add: noTargeting_def matchingHosts_def matchingMACs_def matchingNIDs_def
      matchingGroupPairs_def)

lemma calculateConfigScore_noTargeting: "noTargeting cfg \<Longrightarrow> calculateConfigScore cfg node = 1"
  by (simp add: calculateConfigScore_sum noTargeting_counts)





subsection \<open>The sort\<close>

lemma candidateLess_irrefl: "\<not> candidateLess a a"
  by (simp add: candidateLess_def)

lemma candidateLess_asym: "candidateLess a b \<Longrightarrow> \<not> candidateLess b a"
  by (auto simp: candidateLess_def split: if_splits)

lemma candidateLess_negtrans:
  "\<not> candidateLess c b \<Longrightarrow> \<not> candidateLess b a \<Longrightarrow> \<not> candidateLess c a"
  by (auto simp: candidateLess_def split: if_splits)

lemma sorted_first:
  assumes "sortsCandidates srt" "xs \<noteq> []"
  shows "\<exists>first rest. srt candidateLess xs = first # rest \<and> first \<in> set xs \<and>
           (\<forall>x\<in>set xs. \<not> candidateLess x first)"
proof -
  let ?ys = "srt candidateLess xs"
  from assms(1) have m: "mset ?ys = mset xs"
    and st: "sorted_wrt (\<lambda>a b. \<not> candidateLess b a) ?ys"
    by (simp_all add: sortsCandidates_def)
  from m have se: "set ?ys = set xs" by (rule mset_eq_setD)
  with assms(2) have "?ys \<noteq> []" by auto
  then obtain first rest where ys: "?ys = first # rest" by (cases ?ys) auto
  have "first \<in> set xs" using se ys by auto
  moreover have "\<forall>x\<in>set xs. \<not> candidateLess x first"
  proof
    fix x assume "x \<in> set xs"
    then have "x = first \<or> x \<in> set rest" using se ys by auto
    then show "\<not> candidateLess x first"
      using st ys candidateLess_irrefl by auto
  qed
  ultimately show ?thesis using ys by blast
qed

lemma mset_insertBy: "mset (insertBy lt x xs) = add_mset x (mset xs)"
  by (induction xs) simp_all

lemma set_insertBy: "set (insertBy lt x xs) = insert x (set xs)"
  by (induction xs) auto

lemma sorted_insertBy:
  "sorted_wrt (\<lambda>a b. \<not> candidateLess b a) xs \<Longrightarrow>
   sorted_wrt (\<lambda>a b. \<not> candidateLess b a) (insertBy candidateLess x xs)"
proof (induction xs)
  case Nil
  then show ?case by simp
next
  case (Cons y ys)
  show ?case
  proof (cases "candidateLess y x")
    case True
    then have "\<not> candidateLess x y" by (rule candidateLess_asym)
    with True Cons show ?thesis by (auto simp: set_insertBy)
  next
    case False
    have "\<forall>z\<in>set ys. \<not> candidateLess z x"
      using Cons.prems False candidateLess_negtrans by auto
    with False Cons.prems show ?thesis by simp
  qed
qed

lemma insertionSort_sorts: "sortsCandidates insertionSort"
proof -
  have "mset (insertionSort candidateLess xs) = mset xs" for xs
    unfolding insertionSort_def by (induction xs) (simp_all add: mset_insertBy)
  moreover have "sorted_wrt (\<lambda>a b. \<not> candidateLess b a) (insertionSort candidateLess xs)" for xs
    unfolding insertionSort_def by (induction xs) (simp_all add: sorted_insertBy)
  ultimately show ?thesis by (simp add: sortsCandidates_def)
qed

subsection \<open>Candidates of a phase\<close>

lemma collect_fold:
  "fold (\<lambda>configItem candidates.
             let configProfile = (if Profile (Spec configItem) = [] then ''default''
                                  else Profile (Spec configItem));
                 effectiveTarget = (if target = [] then ''default'' else target)
             in if configProfile \<noteq> effectiveTarget then candidates
                else let sc = calculateConfigScore configItem node
                     in if sc > 0 then candidates @ [\<lparr>config = configItem, score = sc\<rparr>]
                        else candidates)
          configs acc
   = acc @ map (\<lambda>c. \<lparr>config = c, score = calculateConfigScore c node\<rparr>) (eligible configs node target)"
  by (induction configs arbitrary: acc) (simp_all add: eligible_def effectiveProfile_def Let_def)

lemma collectCandidates_eligible:
  "collectCandidates configs node target =
     map (\<lambda>c. \<lparr>config = c, score = calculateConfigScore c node\<rparr>) (eligible configs node target)"
  unfolding collectCandidates_def by (subst collect_fold) simp

lemma candidateLess_notBetter:
  "\<not> candidateLess \<lparr>config = c, score = calculateConfigScore c node\<rparr>
                    \<lparr>config = m, score = calculateConfigScore m node\<rparr> \<Longrightarrow> notBetter node c m"
  by (auto simp: candidateLess_def notBetter_def split: if_splits)

lemma findBestCandidate_None:
  assumes "sortsCandidates srt"
  shows "findBestCandidate srt configs node target = None \<longleftrightarrow> eligible configs node target = []"
proof (cases "eligible configs node target = []")
  case True
  then show ?thesis by (simp add: findBestCandidate_def collectCandidates_eligible)
next
  case False
  then have "collectCandidates configs node target \<noteq> []"
    by (simp add: collectCandidates_eligible)
  from sorted_first [OF assms this] False show ?thesis
    by (auto simp: findBestCandidate_def Let_def)
qed

lemma findBestCandidate_Some:
  assumes "sortsCandidates srt" "findBestCandidate srt configs node target = Some m"
  shows "m \<in> set (eligible configs node target) \<and>
         (\<forall>c\<in>set (eligible configs node target). notBetter node c m)"
proof -
  let ?cs = "collectCandidates configs node target"
  from assms(2) have ne: "?cs \<noteq> []"
    by (auto simp: findBestCandidate_def Let_def split: if_splits)
  from sorted_first [OF assms(1) ne] obtain first rest where
    f: "srt candidateLess ?cs = first # rest" "first \<in> set ?cs"
       "\<forall>x\<in>set ?cs. \<not> candidateLess x first"
    by blast
  from assms(2) ne f(1) have m: "m = config first"
    by (simp add: findBestCandidate_def Let_def)
  from f(2) obtain c0 where c0: "c0 \<in> set (eligible configs node target)"
    "first = \<lparr>config = c0, score = calculateConfigScore c0 node\<rparr>"
    by (auto simp: collectCandidates_eligible)
  with m have mc: "m = c0" by simp
  have "notBetter node c m" if "c \<in> set (eligible configs node target)" for c
  proof -
    from that have "\<lparr>config = c, score = calculateConfigScore c node\<rparr> \<in> set ?cs"
      by (auto simp: collectCandidates_eligible)
    with f(3) have "\<not> candidateLess \<lparr>config = c, score = calculateConfigScore c node\<rparr> first"
      by blast
    then show ?thesis using c0(2) mc by (simp add: candidateLess_notBetter)
  qed
  with c0(1) mc show ?thesis by blast
qed

subsection \<open>Selection\<close>

lemma eligible_default_request:
  "effectiveProfile profile = ''default'' \<Longrightarrow> eligible configs node profile = eligible configs node ''default''"
  by (simp add: eligible_def effectiveProfile_def split: if_splits)

lemma selectConfiguration_Inr:
  assumes "sortsCandidates srt" "selectConfiguration srt configs node profile = Inr m"
  shows "findBestCandidate srt configs node (decidingProfile configs node profile) = Some m"
proof (cases "profile \<noteq> [] \<and> profile \<noteq> ''default''")
  case True
  show ?thesis
  proof (cases "findBestCandidate srt configs node profile")
    case None
    with assms(1) have "eligible configs node profile = []"
      by (simp add: findBestCandidate_None)
    with assms(2) True None show ?thesis
      by (auto simp: selectConfiguration_def decidingProfile_def split: option.splits)
  next
    case (Some m')
    then have "eligible configs node profile \<noteq> []"
      using findBestCandidate_None [OF assms(1), of configs node profile] by simp
    with assms(2) True Some show ?thesis
      by (auto simp: selectConfiguration_def decidingProfile_def)
  qed
next
  case False
  with assms(2) show ?thesis
    by (auto simp: selectConfiguration_def decidingProfile_def split: option.splits)
qed

lemma selectConfiguration_Inl:
  assumes "sortsCandidates srt"
  shows "(\<exists>err. selectConfiguration srt configs node profile = Inl err) \<longleftrightarrow>
           eligible configs node profile = [] \<and> eligible configs node ''default'' = []"
proof (cases "profile \<noteq> [] \<and> profile \<noteq> ''default''")
  case True
  then show ?thesis
    using findBestCandidate_None [OF assms, of configs node profile]
      findBestCandidate_None [OF assms, of configs node "''default''"]
    by (auto simp: selectConfiguration_def split: option.splits)
next
  case False
  then have "eligible configs node profile = eligible configs node ''default''"
    by (intro eligible_default_request) (auto simp: effectiveProfile_def)
  with False show ?thesis
    using findBestCandidate_None [OF assms, of configs node "''default''"]
    by (auto simp: selectConfiguration_def split: option.splits)
qed

lemma selectConfiguration_error:
  "selectConfiguration srt configs node profile = Inl err \<Longrightarrow> err = NoMatchingConfigurations (XName node)"
  by (auto simp: selectConfiguration_def split: option.splits)

lemma findBootConfiguration_fst:
  "GetBootConfigurations e = Inr configs \<Longrightarrow>
   fst (findBootConfiguration e s node profile) = selectConfiguration (sortSliceOf e) configs node profile"
  by (simp add: findBootConfiguration_def Let_def)

lemma selected_is_best:
  assumes "sortsCandidates srt" "selectConfiguration srt configs node profile = Inr m"
  shows "m \<in> set (eligible configs node (decidingProfile configs node profile)) \<and>
         (\<forall>c\<in>set (eligible configs node (decidingProfile configs node profile)). notBetter node c m)"
  using findBestCandidate_Some [OF assms(1) selectConfiguration_Inr [OF assms]] .

lemma eligible_profile:
  "m \<in> set (eligible configs node target) \<Longrightarrow>
     effectiveProfile (Profile (Spec m)) = effectiveProfile target \<and> m \<in> set configs \<and>
     0 < calculateConfigScore m node"
  by (simp add: eligible_def)

lemma example_scores:
  "calculateConfigScore cfgByMAC nodeA = 100" "calculateConfigScore cfgByNID nodeA = 75"
  "calculateConfigScore cfgGpu nodeA = 100" "calculateConfigScore cfgCatchAll nodeA = 1"
  by (simp_all add: calculateConfigScore_sum
      matchingHosts_def matchingMACs_def matchingNIDs_def matchingGroupPairs_def noTargeting_def
      cfgByMAC_def cfgByNID_def cfgGpu_def cfgCatchAll_def nodeA_def targetNothing_def
      EqualFold_def foldByte_def char_of_def bit_iff_odd)

lemma example_profiles:
  "Profile (Spec cfgByMAC) = []" "Profile (Spec cfgByNID) = []" "Profile (Spec cfgCatchAll) = []"
  "Profile (Spec cfgGpu) = ''gpu''"
  by (simp_all add: cfgByMAC_def cfgByNID_def cfgGpu_def cfgCatchAll_def targetNothing_def)

lemma example_MAC_beats_NID:
  assumes "sortsCandidates srt"
  shows "selectConfiguration srt [cfgByMAC, cfgByNID] nodeA ''default'' = Inr cfgByMAC"
proof -
  let ?configs = "[cfgByMAC, cfgByNID]"
  have el: "eligible ?configs nodeA ''default'' = ?configs"
    by (simp add: eligible_def example_scores effectiveProfile_def example_profiles)
  have dp: "decidingProfile ?configs nodeA ''default'' = ''default''"
    by (simp add: decidingProfile_def)
  have "\<not> (\<exists>err. selectConfiguration srt ?configs nodeA ''default'' = Inl err)"
    using selectConfiguration_Inl [OF assms, of ?configs nodeA "''default''"] el by simp
  then obtain m where m: "selectConfiguration srt ?configs nodeA ''default'' = Inr m"
    by (cases "selectConfiguration srt ?configs nodeA ''default''") auto
  from selected_is_best [OF assms m] el dp
  have "m \<in> set ?configs" "notBetter nodeA cfgByMAC m" by simp_all
  then have "m = cfgByMAC"
    by (auto simp: notBetter_def example_scores)
  with m show ?thesis by simp
qed

text \<open>
  C4.  When the sort sorts and the store answers with \<open>configs\<close>: a configuration that
  \<^verbatim>\<open>findBootConfiguration\<close> returns is a candidate of the deciding profile (it has
  that profile and scores above 0), and no candidate of that profile has a higher
  score, or the same score and a higher priority.  The call fails exactly when neither
  the requested profile nor \<open>default\<close> has a candidate, and then with the no-match
  error.  For the node with boot MAC aa:bb:cc:dd:ee:ff and NID 5, the configuration
  targeting the MAC (score 100, priority 10) is selected over the one targeting NID 5
  (score 75, priority 90).
\<close>

theorem findBootConfiguration_selects_best:
  assumes "sortsCandidates (sortSliceOf e)" and "GetBootConfigurations e = Inr configs"
  shows "(\<forall>m. fst (findBootConfiguration e s node profile) = Inr m \<longrightarrow>
            m \<in> set (eligible configs node (decidingProfile configs node profile)) \<and>
            (\<forall>c\<in>set (eligible configs node (decidingProfile configs node profile)).
               notBetter node c m))
       \<and> ((\<exists>err. fst (findBootConfiguration e s node profile) = Inl err) \<longleftrightarrow>
            eligible configs node profile = [] \<and> eligible configs node ''default'' = [])
       \<and> (\<forall>err. fst (findBootConfiguration e s node profile) = Inl err \<longrightarrow>
            err = NoMatchingConfigurations (XName node))
       \<and> (configs = [cfgByMAC, cfgByNID] \<longrightarrow>
            fst (findBootConfiguration e s nodeA ''default'') = Inr cfgByMAC \<and>
            calculateConfigScore cfgByMAC nodeA = 100 \<and> calculateConfigScore cfgByNID nodeA = 75)"
proof -
  note f = findBootConfiguration_fst [OF assms(2)]
  have "\<forall>m. fst (findBootConfiguration e s node profile) = Inr m \<longrightarrow>
            m \<in> set (eligible configs node (decidingProfile configs node profile)) \<and>
            (\<forall>c\<in>set (eligible configs node (decidingProfile configs node profile)).
               notBetter node c m)"
    unfolding f using selected_is_best [OF assms(1)] by blast
  moreover have "(\<exists>err. fst (findBootConfiguration e s node profile) = Inl err) \<longleftrightarrow>
            eligible configs node profile = [] \<and> eligible configs node ''default'' = []"
    unfolding f by (rule selectConfiguration_Inl [OF assms(1)])
  moreover have "\<forall>err. fst (findBootConfiguration e s node profile) = Inl err \<longrightarrow>
            err = NoMatchingConfigurations (XName node)"
    unfolding f using selectConfiguration_error by blast
  moreover have "configs = [cfgByMAC, cfgByNID] \<longrightarrow>
            fst (findBootConfiguration e s nodeA ''default'') = Inr cfgByMAC \<and>
            calculateConfigScore cfgByMAC nodeA = 100 \<and> calculateConfigScore cfgByNID nodeA = 75"
    unfolding f using example_MAC_beats_NID [OF assms(1)] by (simp add: example_scores)
  ultimately show ?thesis by blast
qed

lemma exampleEnv_fields:
  "sortSliceOf (exampleEnv nodes configs) = insertionSort"
  "GetBootConfigurations (exampleEnv nodes configs) = Inr configs"
  "GetNodes (exampleEnv nodes configs) = Inr nodes"
  "validation (exampleEnv nodes configs) = exampleValidation"
  by (simp_all add: exampleEnv_def)

theorem findBootConfiguration_selects_best_witness:
  "fst (findBootConfiguration (exampleEnv [nodeA] [cfgByMAC, cfgByNID]) NewBootScriptController
          nodeA ''default'') = Inr cfgByMAC
   \<and> calculateConfigScore cfgByMAC nodeA = 100 \<and> calculateConfigScore cfgByNID nodeA = 75
   \<and> Priority (Spec cfgByMAC) = 10 \<and> Priority (Spec cfgByNID) = 90
   \<and> cfgByMAC \<in> set (eligible [cfgByMAC, cfgByNID] nodeA ''default'')
   \<and> notBetter nodeA cfgByNID cfgByMAC"
proof -
  let ?e = "exampleEnv [nodeA] [cfgByMAC, cfgByNID]"
  have a: "sortsCandidates (sortSliceOf ?e)"
    by (simp add: exampleEnv_fields insertionSort_sorts)
  have b: "GetBootConfigurations ?e = Inr [cfgByMAC, cfgByNID]"
    by (simp add: exampleEnv_fields)
  note t = findBootConfiguration_selects_best [OF a b, of NewBootScriptController nodeA "''default''"]
  from t have r: "fst (findBootConfiguration ?e NewBootScriptController nodeA ''default'') = Inr cfgByMAC"
    and sc: "calculateConfigScore cfgByMAC nodeA = 100" "calculateConfigScore cfgByNID nodeA = 75"
    by simp_all
  have el: "eligible [cfgByMAC, cfgByNID] nodeA ''default'' = [cfgByMAC, cfgByNID]"
    by (simp add: eligible_def sc effectiveProfile_def example_profiles)
  have dp: "decidingProfile [cfgByMAC, cfgByNID] nodeA ''default'' = ''default''"
    by (simp add: decidingProfile_def)
  from t r have "cfgByMAC \<in> set (eligible [cfgByMAC, cfgByNID] nodeA ''default'')"
    and "\<forall>c\<in>set (eligible [cfgByMAC, cfgByNID] nodeA ''default''). notBetter nodeA c cfgByMAC"
    unfolding dp by blast+
  then have "cfgByMAC \<in> set (eligible [cfgByMAC, cfgByNID] nodeA ''default'')"
    and "notBetter nodeA cfgByNID cfgByMAC"
    unfolding el by simp_all
  with r sc show ?thesis
    by (simp add: cfgByMAC_def cfgByNID_def targetNothing_def)
qed

lemma decidingProfile_cases:
  "effectiveProfile (decidingProfile configs node profile) = effectiveProfile profile \<or>
   (profile \<noteq> [] \<and> profile \<noteq> ''default'' \<and> eligible configs node profile = [] \<and>
    effectiveProfile (decidingProfile configs node profile) = ''default'')"
  by (auto simp: decidingProfile_def effectiveProfile_def)

lemma selected_profile:
  assumes "sortsCandidates srt" "selectConfiguration srt configs node profile = Inr m"
  shows "effectiveProfile (Profile (Spec m)) = effectiveProfile (decidingProfile configs node profile)"
  using selected_is_best [OF assms] eligible_profile by blast

lemma catchAll_eligible:
  assumes "c \<in> set configs" "noTargeting c" "effectiveProfile (Profile (Spec c)) = ''default''"
  shows "c \<in> set (eligible configs node ''default'')"
  using assms by (simp add: eligible_def calculateConfigScore_noTargeting effectiveProfile_def)

lemma example_burn_in:
  assumes "sortsCandidates srt"
  shows "selectConfiguration srt [cfgCatchAll] nodeA ''burn-in'' = Inr cfgCatchAll"
proof -
  let ?configs = "[cfgCatchAll]"
  have el: "eligible ?configs nodeA ''default'' = ?configs" "eligible ?configs nodeA ''burn-in'' = []"
    by (simp_all add: eligible_def example_scores effectiveProfile_def example_profiles)
  have dp: "decidingProfile ?configs nodeA ''burn-in'' = ''default''"
    by (simp add: decidingProfile_def el)
  have "\<not> (\<exists>err. selectConfiguration srt ?configs nodeA ''burn-in'' = Inl err)"
    using selectConfiguration_Inl [OF assms, of ?configs nodeA "''burn-in''"] el by simp
  then obtain m where m: "selectConfiguration srt ?configs nodeA ''burn-in'' = Inr m"
    by (cases "selectConfiguration srt ?configs nodeA ''burn-in''") auto
  from selected_is_best [OF assms m] el dp have "m \<in> set ?configs" by simp
  with m show ?thesis by simp
qed

text \<open>
  C5.  When the sort sorts and the store answers with \<open>configs\<close>: the effective
  profile of a configuration that \<^verbatim>\<open>findBootConfiguration\<close> returns is the effective
  requested profile, or it is \<open>default\<close> while a profile other than the default was
  requested and no configuration of that profile scored above 0.  For a request of the
  default (or empty) profile the returned configuration has effective profile
  \<open>default\<close>, so never the profile \<open>gpu\<close>.  When no configuration of the requested
  profile scores above 0 and the store holds a default-profile configuration without
  targeting fields, the call succeeds with a default-profile configuration; with the
  catch-all as the only configuration, a request for \<open>burn-in\<close> returns it, and its
  score is 1.
\<close>

theorem findBootConfiguration_profile_scope:
  assumes "sortsCandidates (sortSliceOf e)" and "GetBootConfigurations e = Inr configs"
  shows "(\<forall>m. fst (findBootConfiguration e s node profile) = Inr m \<longrightarrow>
            effectiveProfile (Profile (Spec m)) = effectiveProfile profile \<or>
            (profile \<noteq> [] \<and> profile \<noteq> ''default'' \<and> eligible configs node profile = [] \<and>
             effectiveProfile (Profile (Spec m)) = ''default''))
       \<and> (\<forall>m. effectiveProfile profile = ''default'' \<and>
               fst (findBootConfiguration e s node profile) = Inr m \<longrightarrow>
               effectiveProfile (Profile (Spec m)) = ''default'' \<and> Profile (Spec m) \<noteq> ''gpu'')
       \<and> (\<forall>c. eligible configs node profile = [] \<and> c \<in> set configs \<and> noTargeting c \<and>
               effectiveProfile (Profile (Spec c)) = ''default'' \<longrightarrow>
               (\<exists>m. fst (findBootConfiguration e s node profile) = Inr m \<and>
                    effectiveProfile (Profile (Spec m)) = ''default''))
       \<and> (configs = [cfgCatchAll] \<longrightarrow>
            fst (findBootConfiguration e s nodeA ''burn-in'') = Inr cfgCatchAll \<and>
            calculateConfigScore cfgCatchAll nodeA = 1)"
proof -
  note f = findBootConfiguration_fst [OF assms(2)]
  let ?r = "selectConfiguration (sortSliceOf e) configs node profile"
  have p1: "effectiveProfile (Profile (Spec m)) = effectiveProfile profile \<or>
            (profile \<noteq> [] \<and> profile \<noteq> ''default'' \<and> eligible configs node profile = [] \<and>
             effectiveProfile (Profile (Spec m)) = ''default'')" if "?r = Inr m" for m
    using selected_profile [OF assms(1) that] decidingProfile_cases [of configs node profile]
    by auto
  have p2: "effectiveProfile (Profile (Spec m)) = ''default'' \<and> Profile (Spec m) \<noteq> ''gpu''"
    if "effectiveProfile profile = ''default''" "?r = Inr m" for m
  proof -
    from p1 [OF that(2)] that(1) have "effectiveProfile (Profile (Spec m)) = ''default''"
      by auto
    then show ?thesis by (auto simp: effectiveProfile_def)
  qed
  have p3: "\<exists>m. ?r = Inr m \<and> effectiveProfile (Profile (Spec m)) = ''default''"
    if "eligible configs node profile = []" "c \<in> set configs" "noTargeting c"
       "effectiveProfile (Profile (Spec c)) = ''default''" for c
  proof -
    from catchAll_eligible [OF that(2-4), of node] have "eligible configs node ''default'' \<noteq> []"
      by (cases "eligible configs node ''default''") simp_all
    then have "\<not> (\<exists>err. ?r = Inl err)"
      using selectConfiguration_Inl [OF assms(1), of configs node profile] by simp
    then obtain m where m: "?r = Inr m" by (cases ?r) auto
    have "decidingProfile configs node profile = ''default''"
      using that(1) by (simp add: decidingProfile_def)
    with selected_profile [OF assms(1) m]
    have "effectiveProfile (Profile (Spec m)) = ''default''"
      by (simp add: effectiveProfile_def)
    with m show ?thesis by blast
  qed
  have p4: "configs = [cfgCatchAll] \<longrightarrow>
            fst (findBootConfiguration e s nodeA ''burn-in'') = Inr cfgCatchAll \<and>
            calculateConfigScore cfgCatchAll nodeA = 1"
    unfolding f using example_burn_in [OF assms(1)] by (simp add: example_scores)
  from p1 p2 p3 p4 show ?thesis unfolding f by blast
qed

theorem findBootConfiguration_profile_scope_witness:
  "fst (findBootConfiguration (exampleEnv [nodeA] [cfgCatchAll]) NewBootScriptController
          nodeA ''burn-in'') = Inr cfgCatchAll
   \<and> calculateConfigScore cfgCatchAll nodeA = 1
   \<and> fst (findBootConfiguration (exampleEnv [nodeA] [cfgGpu, cfgCatchAll]) NewBootScriptController
          nodeA ''default'') = Inr cfgCatchAll
   \<and> fst (findBootConfiguration (exampleEnv [nodeA] [cfgGpu, cfgCatchAll]) NewBootScriptController
          nodeA ''gpu'') = Inr cfgGpu
   \<and> (\<exists>m. fst (findBootConfiguration (exampleEnv [nodeA] [cfgGpu, cfgCatchAll])
                 NewBootScriptController nodeA ''burn-in'') = Inr m \<and>
            effectiveProfile (Profile (Spec m)) = ''default'')"
proof -
  have a: "sortsCandidates (sortSliceOf (exampleEnv [nodeA] [cfgCatchAll]))"
    by (simp add: exampleEnv_fields insertionSort_sorts)
  have b: "GetBootConfigurations (exampleEnv [nodeA] [cfgCatchAll]) = Inr [cfgCatchAll]"
    by (simp add: exampleEnv_fields)
  have a': "sortsCandidates (sortSliceOf (exampleEnv [nodeA] [cfgGpu, cfgCatchAll]))"
    by (simp add: exampleEnv_fields insertionSort_sorts)
  have b': "GetBootConfigurations (exampleEnv [nodeA] [cfgGpu, cfgCatchAll]) = Inr [cfgGpu, cfgCatchAll]"
    by (simp add: exampleEnv_fields)
  have c: "fst (findBootConfiguration (exampleEnv [nodeA] [cfgGpu, cfgCatchAll])
             NewBootScriptController nodeA ''default'') = Inr cfgCatchAll"
    by (simp add: findBootConfiguration_def exampleEnv_fields selectConfiguration_def
        findBestCandidate_def collectCandidates_eligible eligible_def example_scores
        example_profiles effectiveProfile_def insertionSort_def)
  have d: "fst (findBootConfiguration (exampleEnv [nodeA] [cfgGpu, cfgCatchAll])
             NewBootScriptController nodeA ''gpu'') = Inr cfgGpu"
    by (simp add: findBootConfiguration_def exampleEnv_fields selectConfiguration_def
        findBestCandidate_def collectCandidates_eligible eligible_def example_scores
        example_profiles effectiveProfile_def insertionSort_def)
  have f: "eligible [cfgGpu, cfgCatchAll] nodeA ''burn-in'' = []" "cfgCatchAll \<in> set [cfgGpu, cfgCatchAll]"
    "noTargeting cfgCatchAll" "effectiveProfile (Profile (Spec cfgCatchAll)) = ''default''"
    by (simp_all add: eligible_def effectiveProfile_def example_profiles noTargeting_def
        cfgCatchAll_def targetNothing_def)
  note t = findBootConfiguration_profile_scope [OF a' b', of NewBootScriptController nodeA "''burn-in''",
      THEN conjunct2, THEN conjunct2, THEN conjunct1, rule_format, of cfgCatchAll]
  from t f have g: "\<exists>m. fst (findBootConfiguration (exampleEnv [nodeA] [cfgGpu, cfgCatchAll])
                 NewBootScriptController nodeA ''burn-in'') = Inr m \<and>
            effectiveProfile (Profile (Spec m)) = ''default''"
    by blast
  show ?thesis
    using findBootConfiguration_profile_scope [OF a b, of NewBootScriptController nodeA "''burn-in''"]
      c d g
    by simp
qed

subsection \<open>Classification\<close>

lemma digits_fold_nonneg:
  "list_all isDigit ds \<Longrightarrow> 0 \<le> a \<Longrightarrow> 0 \<le> fold (\<lambda>ch n. n * 10 + (int (of_char ch) - 48)) ds a"
  by (induction ds arbitrary: a) (simp_all add: isDigit_def Let_def)

lemma digitsValue_nonneg: "list_all isDigit ds \<Longrightarrow> 0 \<le> digitsValue ds"
  unfolding digitsValue_def by (rule digits_fold_nonneg) simp_all

lemma Atoi_nonneg_iff: "snd (Atoi s) = None \<and> 0 \<le> fst (Atoi s) \<longleftrightarrow> parsesNonNegative s"
proof (cases s)
  case Nil
  then show ?thesis by (simp add: Atoi_def parsesNonNegative_def)
next
  case (Cons c cs)
  show ?thesis
  proof (cases "c = CHR ''-'' \<or> c = CHR ''+''")
    case True
    then show ?thesis
      using Cons digitsValue_nonneg [of cs]
      by (auto simp: Atoi_def parsesNonNegative_def Let_def list_ex_iff list_all_iff)
  next
    case False
    then show ?thesis
      using Cons digitsValue_nonneg [of "c # cs"]
      by (auto simp: Atoi_def parsesNonNegative_def Let_def list_ex_iff list_all_iff)
  qed
qed

text \<open>
  C8.  \<^verbatim>\<open>parseNodeIdentifier\<close> gives every string a kind and keeps the raw value: the
  kind is XName when the string has XName syntax; otherwise NID when it reads as a
  non-negative integer; otherwise MAC when it has MAC syntax; otherwise Unknown.
\<close>

theorem parseNodeIdentifier_order:
  "Value (parseNodeIdentifier v raw) = raw \<and>
   Type (parseNodeIdentifier v raw) =
     (if ValidateXName v raw then IdentifierXName
      else if parsesNonNegative raw then IdentifierNID
      else if ValidateMAC v raw then IdentifierMAC
      else IdentifierUnknown)"
  using Atoi_nonneg_iff [of raw] by (simp add: parseNodeIdentifier_def)

lemma example_parses:
  "parsesNonNegative ''9999''" "parsesNonNegative ''-0''"
  "\<not> parsesNonNegative ''x1000c0s0b0n0''" "\<not> parsesNonNegative ''aa:bb:cc:dd:ee:ff''"
  "\<not> parsesNonNegative ''node-7''" "\<not> parsesNonNegative ''-5''"
  "\<not> parsesNonNegative ''9223372036854775808''" "parsesNonNegative ''9223372036854775807''"
  by (simp_all add: parsesNonNegative_def isDigit_def digitsValue_def)

theorem parseNodeIdentifier_order_witness:
  "parseNodeIdentifier exampleValidation ''x1000c0s0b0n0'' =
     \<lparr>Value = ''x1000c0s0b0n0'', Type = IdentifierXName\<rparr>
   \<and> parseNodeIdentifier exampleValidation ''9999'' = \<lparr>Value = ''9999'', Type = IdentifierNID\<rparr>
   \<and> parseNodeIdentifier exampleValidation ''aa:bb:cc:dd:ee:ff'' =
     \<lparr>Value = ''aa:bb:cc:dd:ee:ff'', Type = IdentifierMAC\<rparr>
   \<and> parseNodeIdentifier exampleValidation ''node-7'' = \<lparr>Value = ''node-7'', Type = IdentifierUnknown\<rparr>
   \<and> parseNodeIdentifier exampleValidation ''9223372036854775808'' =
     \<lparr>Value = ''9223372036854775808'', Type = IdentifierUnknown\<rparr>"
proof -
  have "i = \<lparr>Value = Value i, Type = Type i\<rparr>" for i :: NodeIdentifier
    by simp
  then have "parseNodeIdentifier exampleValidation raw = \<lparr>Value = raw, Type = t\<rparr>"
    if "Value (parseNodeIdentifier exampleValidation raw) = raw"
       "Type (parseNodeIdentifier exampleValidation raw) = t" for raw t
    using that by metis
  then show ?thesis
    using parseNodeIdentifier_order [of exampleValidation]
    by (simp add: example_parses exampleValidation_def)
qed

subsection \<open>Validation\<close>

lemma validateHosts_None: "validateHosts v hs = None \<longleftrightarrow> (\<forall>h\<in>set hs. ValidateXNameOrDefault v h)"
  by (induction hs) simp_all

lemma validateMACs_None: "validateMACs v ms = None \<longleftrightarrow> (\<forall>m\<in>set ms. ValidateMAC v m)"
  by (induction ms) simp_all

text \<open>
  C9.  \<^verbatim>\<open>Validate\<close> accepts a configuration exactly when its kernel is not empty and
  is a valid URL or path, every host passes the XName-or-default check, every MAC is
  valid, the initrd, when not empty, passes the check for an optional URL or path, the
  priority is between 0 and 100, and one of the four targeting lists is not empty;
  otherwise it returns an error.
\<close>

theorem Validate_accepts_iff:
  "Validate v r = None \<longleftrightarrow>
     Kernel (Spec r) \<noteq> [] \<and> ValidateURLOrPath v (Kernel (Spec r)) \<and>
     (\<forall>host\<in>set (Hosts (Spec r)). ValidateXNameOrDefault v host) \<and>
     (\<forall>mac\<in>set (MACs (Spec r)). ValidateMAC v mac) \<and>
     (Initrd (Spec r) \<noteq> [] \<longrightarrow> ValidateURLOrPathOptional v (Initrd (Spec r))) \<and>
     0 \<le> Priority (Spec r) \<and> Priority (Spec r) \<le> 100 \<and>
     \<not> noTargeting r"
proof -
  have "Validate v r = None \<longleftrightarrow>
     Kernel (Spec r) \<noteq> [] \<and> validateHosts v (Hosts (Spec r)) = None \<and>
     validateMACs v (MACs (Spec r)) = None \<and> ValidateURLOrPath v (Kernel (Spec r)) \<and>
     (Initrd (Spec r) \<noteq> [] \<longrightarrow> ValidateURLOrPathOptional v (Initrd (Spec r))) \<and>
     0 \<le> Priority (Spec r) \<and> Priority (Spec r) \<le> 100 \<and> \<not> noTargeting r"
    by (auto simp: Validate_def noTargeting_def split: option.splits)
  then show ?thesis
    by (auto simp: validateHosts_None validateMACs_None)
qed

theorem Validate_accepts_iff_witness:
  "Validate exampleValidation cfgByMAC = None
   \<and> Validate exampleValidation cfgCatchAll =
       Some ''at least one targeting method (hosts, macs, nids, or groups) must be specified''
   \<and> Validate exampleValidation (cfgByMAC\<lparr>Spec := (Spec cfgByMAC)\<lparr>Priority := 101\<rparr>\<rparr>) =
       Some ''priority must be between 0 and 100''"
proof -
  have "Validate exampleValidation cfgByMAC = None"
    using Validate_accepts_iff [of exampleValidation cfgByMAC]
    by (simp add: cfgByMAC_def targetNothing_def exampleValidation_def noTargeting_def)
  moreover have "Validate exampleValidation cfgCatchAll =
       Some ''at least one targeting method (hosts, macs, nids, or groups) must be specified''"
    by (simp add: Validate_def cfgCatchAll_def targetNothing_def exampleValidation_def)
  moreover have "Validate exampleValidation (cfgByMAC\<lparr>Spec := (Spec cfgByMAC)\<lparr>Priority := 101\<rparr>\<rparr>) =
       Some ''priority must be between 0 and 100''"
    by (simp add: Validate_def cfgByMAC_def targetNothing_def exampleValidation_def)
  ultimately show ?thesis by blast
qed

subsection \<open>Templates\<close>

lemma take_eq_prefix: "take (length old) s = old \<longleftrightarrow> prefix old s"
  by (metis append_eq_conv_conj prefix_def)

lemma replaceFrom_contains:
  "old \<noteq> [] \<Longrightarrow> sublist old s \<Longrightarrow> sublist new (replaceFrom old new s)"
proof (induction old new s rule: replaceFrom.induct)
  case (1 old new)
  then show ?case by simp
next
  case (2 old new c cs)
  show ?case
  proof (cases "take (length old) (c # cs) = old")
    case True
    with "2.prems"(1) show ?thesis by simp
  next
    case False
    then have "\<not> prefix old (c # cs)" by (simp only: take_eq_prefix not_False_eq_True)
    with "2.prems"(2) have "sublist old cs" by (simp add: sublist_Cons_right)
    with "2.IH"(2) False "2.prems"(1) have "sublist new (replaceFrom old new cs)" by simp
    then have "sublist new (c # replaceFrom old new cs)"
      by (simp add: sublist_Cons_right)
    with False show ?thesis by simp
  qed
qed

lemma ReplaceAll_contains:
  "old \<noteq> [] \<Longrightarrow> sublist old s \<Longrightarrow> sublist new (ReplaceAll s old new)"
  by (simp add: ReplaceAll_def replaceFrom_contains)

lemma sublist_trans': "sublist xs ys \<Longrightarrow> sublist ys zs \<Longrightarrow> sublist xs zs"
  by (rule sublist_order.order_trans)

lemma generateMinimalScript_contains:
  "sublist ''{{.Identifier}}'' (MinimalIPXETemplate e) \<Longrightarrow>
   sublist identifier (generateMinimalScript e identifier)"
  unfolding generateMinimalScript_def by (rule ReplaceAll_contains) simp_all

lemma generateErrorScript_contains:
  "sublist ''{{.Error}}'' (ErrorIPXETemplate e) \<Longrightarrow> sublist msg (generateErrorScript e msg)"
  unfolding generateErrorScript_def by (rule ReplaceAll_contains) simp_all

subsection \<open>The paths of GenerateBootScript\<close>

lemma GenerateBootScript_nil_error: "snd (fst (GenerateBootScript e now s identifier profile)) = None"
  by (simp add: GenerateBootScript_def Let_def split: option.splits prod.splits sum.splits)

lemma GenerateBootScript_hit:
  "cacheGet (cache s) now (generateCacheKey e identifier profile) = Some cached \<Longrightarrow>
   GenerateBootScript e now s identifier profile = ((cached, None), s)"
  by (simp add: GenerateBootScript_def)

lemma GenerateBootScript_resolve_fails:
  assumes "cacheGet (cache s) now (generateCacheKey e identifier profile) = None"
    and "fst (resolveNode e s (parseNodeIdentifier (validation e) identifier)) = Inl err"
  shows "fst (GenerateBootScript e now s identifier profile) =
           (generateErrorScript e (''Node resolution failed: '' @ errorString err), None)"
  using assms
  by (cases "resolveNode e s (parseNodeIdentifier (validation e) identifier)")
     (simp add: GenerateBootScript_def)

lemma GenerateBootScript_match_fails:
  assumes "cacheGet (cache s) now (generateCacheKey e identifier profile) = None"
    and "resolveNode e s (parseNodeIdentifier (validation e) identifier) = (Inr node, s1)"
    and "fst (findBootConfiguration e s1 node profile) = Inl err"
  shows "fst (GenerateBootScript e now s identifier profile) =
           (generateMinimalScript e identifier, None)"
  using assms by (cases "findBootConfiguration e s1 node profile") (simp add: GenerateBootScript_def)

lemma resolveNode_fst:
  "fst (resolveNode e s ident) =
     (case GetNodes e of
        Inl msg \<Rightarrow> Inl (GettingNodes msg)
      | Inr nodes \<Rightarrow> (case scanNodes ident nodes of
                        Some n \<Rightarrow> Inr n | None \<Rightarrow> Inl (NodeNotFound (Value ident))))"
  by (simp add: resolveNode_def Let_def split: sum.splits option.splits)

lemma parse_Value: "Value (parseNodeIdentifier v raw) = raw"
  by (simp add: parseNodeIdentifier_def)

lemma scanNodes_Unknown: "Type ident = IdentifierUnknown \<Longrightarrow> scanNodes ident nodes = None"
  by (induction nodes) simp_all

text \<open>
  C1.  For every identifier, profile, environment, instant and state,
  \<^verbatim>\<open>GenerateBootScript\<close> returns a script with a nil error.
\<close>

theorem GenerateBootScript_never_fails:
  "\<exists>script. fst (GenerateBootScript e now s identifier profile) = (script, None)"
  using GenerateBootScript_nil_error [of e now s "identifier" "profile"]
  by (cases "fst (GenerateBootScript e now s identifier profile)") simp

lemma exampleEnv_more:
  "MinimalIPXETemplate (exampleEnv nodes configs) = ''echo no boot configuration for {{.Identifier}}''"
  "ErrorIPXETemplate (exampleEnv nodes configs) = ''echo boot script error: {{.Error}}''"
  "generateCacheKey (exampleEnv nodes configs) i n = i @ '':'' @ n"
  "buildIPXEScript (exampleEnv nodes configs) cfg node = Inr (''kernel '' @ Kernel (Spec cfg))"
  by (simp_all add: exampleEnv_def)

lemma fresh_cache_miss: "cacheGet (cache NewBootScriptController) now key = None"
  by (simp add: cacheGet_def NewBootScriptController_def NewScriptCache_def)

lemma example_9999:
  "fst (GenerateBootScript (exampleEnv [] []) 0 NewBootScriptController ''9999'' []) =
     (''echo boot script error: Node resolution failed: node not found for identifier 9999'', None)"
  by (simp add: GenerateBootScript_resolve_fails [where err = "NodeNotFound ''9999''"]
      fresh_cache_miss resolveNode_fst exampleEnv_fields parse_Value generateErrorScript_def
      exampleEnv_more ReplaceAll_def)

lemma example_priorities: "Priority (Spec cfgByMAC) = 10" "Priority (Spec cfgByNID) = 90"
  by (simp_all add: cfgByMAC_def cfgByNID_def targetNothing_def)

lemma example_find_byMAC:
  "findBootConfiguration (exampleEnv nodes [cfgByMAC, cfgByNID]) s nodeA [] =
     (Inr cfgByMAC, s\<lparr>calls := calls s @ [CallGetBootConfigurations]\<rparr>)"
  by (simp add: findBootConfiguration_def exampleEnv_fields selectConfiguration_def
      findBestCandidate_def collectCandidates_eligible eligible_def example_scores
      example_profiles effectiveProfile_def insertionSort_def candidateLess_def
      example_priorities)

lemma example_find_none:
  "findBootConfiguration (exampleEnv nodes []) s nodeA [] =
     (Inl (NoMatchingConfigurations ''x1000c0s0b0n0''),
      s\<lparr>calls := calls s @ [CallGetBootConfigurations]\<rparr>)"
  by (simp add: findBootConfiguration_def exampleEnv_fields selectConfiguration_def
      findBestCandidate_def collectCandidates_eligible eligible_def nodeA_def)

lemma example_resolve_nodeA:
  "resolveNode (exampleEnv [nodeA] configs) s
     (parseNodeIdentifier (validation (exampleEnv [nodeA] configs)) ''x1000c0s0b0n0'') =
     (Inr nodeA, s\<lparr>calls := calls s @ [CallGetNodes]\<rparr>)"
  by (simp add: resolveNode_def exampleEnv_fields parseNodeIdentifier_def exampleValidation_def
      nodeA_def)

lemma example_run_byMAC:
  assumes "cacheGet (cache s) now ''x1000c0s0b0n0:'' = None"
  shows "GenerateBootScript (exampleEnv [nodeA] [cfgByMAC, cfgByNID]) now s ''x1000c0s0b0n0'' [] =
     ((''kernel http://boot/vmlinuz'', None),
      s\<lparr>calls := calls s @ [CallGetNodes, CallGetBootConfigurations],
        cache := cacheSet (cache s) now ''x1000c0s0b0n0:by-mac'' ''kernel http://boot/vmlinuz''
                   ''x1000c0s0b0n0'' ''by-mac''\<rparr>)"
  using assms
  by (simp add: GenerateBootScript_def exampleEnv_more example_resolve_nodeA example_find_byMAC)
     (simp add: cfgByMAC_def targetNothing_def nodeA_def Let_def)

theorem GenerateBootScript_never_fails_witness:
  "fst (GenerateBootScript (exampleEnv [nodeA] [cfgByMAC, cfgByNID]) 0 NewBootScriptController
          ''x1000c0s0b0n0'' []) = (''kernel http://boot/vmlinuz'', None)
   \<and> snd (fst (GenerateBootScript (exampleEnv [nodeA] []) 0 NewBootScriptController
                 ''x1000c0s0b0n0'' [])) = None
   \<and> snd (fst (GenerateBootScript (exampleEnv [] []) 0 NewBootScriptController ''9999'' [])) = None"
proof -
  have "snd (fst (GenerateBootScript (exampleEnv [nodeA] []) 0 NewBootScriptController
                 ''x1000c0s0b0n0'' [])) = None"
    using GenerateBootScript_never_fails
      [of "exampleEnv [nodeA] []" 0 NewBootScriptController "''x1000c0s0b0n0''" "[]"]
    by auto
  moreover have "snd (fst (GenerateBootScript (exampleEnv [] []) 0 NewBootScriptController
                 ''9999'' [])) = None"
    using GenerateBootScript_never_fails
      [of "exampleEnv [] []" 0 NewBootScriptController "''9999''" "[]"]
    by auto
  ultimately show ?thesis
    by (simp add: example_run_byMAC fresh_cache_miss)
qed

text \<open>
  C2 (as amended).  On a cache miss: when node resolution fails, \<^verbatim>\<open>GenerateBootScript\<close>
  returns the error script, the error template with the message
  \<open>Node resolution failed: \<close> followed by the resolver's error, and a nil error; in
  particular, when the inventory holds no node the identifier selects, the message ends
  in \<open>node not found for identifier \<close> and the raw identifier, and the script
  contains the identifier whenever the error template contains its placeholder.  When
  the node resolves and no configuration matches, it returns the minimal script, the
  minimal template with the raw identifier substituted, and a nil error; that script
  contains the identifier whenever the minimal template contains its placeholder.
\<close>

theorem GenerateBootScript_recovers:
  assumes "cacheGet (cache s) now (generateCacheKey e identifier profile) = None"
  shows "(\<forall>err. fst (resolveNode e s (parseNodeIdentifier (validation e) identifier)) = Inl err \<longrightarrow>
            fst (GenerateBootScript e now s identifier profile) =
              (generateErrorScript e (''Node resolution failed: '' @ errorString err), None))
       \<and> (\<forall>nodes. GetNodes e = Inr nodes \<and>
              scanNodes (parseNodeIdentifier (validation e) identifier) nodes = None \<longrightarrow>
            fst (GenerateBootScript e now s identifier profile) =
              (generateErrorScript e
                 (''Node resolution failed: node not found for identifier '' @ identifier), None) \<and>
            (sublist ''{{.Error}}'' (ErrorIPXETemplate e) \<longrightarrow>
               sublist identifier (fst (fst (GenerateBootScript e now s identifier profile)))))
       \<and> (\<forall>node s1 err.
              resolveNode e s (parseNodeIdentifier (validation e) identifier) = (Inr node, s1) \<and>
              fst (findBootConfiguration e s1 node profile) = Inl err \<longrightarrow>
            fst (GenerateBootScript e now s identifier profile) =
              (generateMinimalScript e identifier, None) \<and>
            (sublist ''{{.Identifier}}'' (MinimalIPXETemplate e) \<longrightarrow>
               sublist identifier (fst (fst (GenerateBootScript e now s identifier profile)))))"
proof -
  let ?id = "parseNodeIdentifier (validation e) identifier"
  let ?g = "GenerateBootScript e now s identifier profile"
  have p1: "fst ?g = (generateErrorScript e (''Node resolution failed: '' @ errorString err), None)"
    if "fst (resolveNode e s ?id) = Inl err" for err
    using GenerateBootScript_resolve_fails [OF assms that] .
  have p2: "fst ?g = (generateErrorScript e
                 (''Node resolution failed: node not found for identifier '' @ identifier), None) \<and>
            (sublist ''{{.Error}}'' (ErrorIPXETemplate e) \<longrightarrow> sublist identifier (fst (fst ?g)))"
    if "GetNodes e = Inr nodes" "scanNodes ?id nodes = None" for nodes
  proof -
    from that have "fst (resolveNode e s ?id) = Inl (NodeNotFound identifier)"
      by (simp add: resolveNode_fst parse_Value)
    from p1 [OF this] have g: "fst ?g = (generateErrorScript e
                 (''Node resolution failed: node not found for identifier '' @ identifier), None)"
      by simp
    have "sublist identifier (fst (fst ?g))" if t: "sublist ''{{.Error}}'' (ErrorIPXETemplate e)"
    proof -
      let ?msg = "''Node resolution failed: node not found for identifier '' @ identifier"
      have "sublist identifier ?msg" by (rule sublist_append_leftI)
      moreover have "sublist ?msg (generateErrorScript e ?msg)"
        using t by (rule generateErrorScript_contains)
      ultimately show ?thesis unfolding g fst_conv by (rule sublist_trans')
    qed
    with g show ?thesis by blast
  qed
  have p3: "fst ?g = (generateMinimalScript e identifier, None) \<and>
            (sublist ''{{.Identifier}}'' (MinimalIPXETemplate e) \<longrightarrow> sublist identifier (fst (fst ?g)))"
    if "resolveNode e s ?id = (Inr node, s1)" "fst (findBootConfiguration e s1 node profile) = Inl err"
    for node s1 err
    using GenerateBootScript_match_fails [OF assms that] generateMinimalScript_contains
    by simp
  from p1 p2 p3 show ?thesis by blast
qed

theorem GenerateBootScript_recovers_witness:
  "fst (GenerateBootScript (exampleEnv [] []) 0 NewBootScriptController ''9999'' []) =
     (generateErrorScript (exampleEnv [] [])
        ''Node resolution failed: node not found for identifier 9999'', None)
   \<and> sublist ''9999'' (fst (fst (GenerateBootScript (exampleEnv [] []) 0 NewBootScriptController
                                  ''9999'' [])))
   \<and> fst (GenerateBootScript (exampleEnv [nodeA] []) 0 NewBootScriptController ''x1000c0s0b0n0'' [])
       = (generateMinimalScript (exampleEnv [nodeA] []) ''x1000c0s0b0n0'', None)
   \<and> sublist ''x1000c0s0b0n0''
        (fst (fst (GenerateBootScript (exampleEnv [nodeA] []) 0 NewBootScriptController
                     ''x1000c0s0b0n0'' [])))"
proof -
  have a: "cacheGet (cache NewBootScriptController) 0
             (generateCacheKey (exampleEnv [] []) ''9999'' []) = None"
    by (rule fresh_cache_miss)
  have b: "GetNodes (exampleEnv [] []) = Inr []"
          "scanNodes (parseNodeIdentifier (validation (exampleEnv [] [])) ''9999'') [] = None"
          "sublist ''{{.Error}}'' (ErrorIPXETemplate (exampleEnv [] []))"
    by (simp_all add: exampleEnv_fields exampleEnv_more sublist_code)
  note r = GenerateBootScript_recovers [OF a, THEN conjunct2, THEN conjunct1, rule_format, of "[]"]
  from r b(1,2) have "fst (GenerateBootScript (exampleEnv [] []) 0 NewBootScriptController ''9999'' []) =
     (generateErrorScript (exampleEnv [] [])
        ''Node resolution failed: node not found for identifier 9999'', None)"
    by simp
  moreover from r b have "sublist ''9999'' (fst (fst (GenerateBootScript (exampleEnv [] []) 0
                                  NewBootScriptController ''9999'' [])))"
    by blast
  moreover
  let ?e = "exampleEnv [nodeA] []"
  let ?s1 = "NewBootScriptController\<lparr>calls := calls NewBootScriptController @ [CallGetNodes]\<rparr>"
  have c: "cacheGet (cache NewBootScriptController) 0
             (generateCacheKey ?e ''x1000c0s0b0n0'' []) = None"
    by (rule fresh_cache_miss)
  have d: "resolveNode ?e NewBootScriptController
             (parseNodeIdentifier (validation ?e) ''x1000c0s0b0n0'') = (Inr nodeA, ?s1)"
          "fst (findBootConfiguration ?e ?s1 nodeA []) = Inl (NoMatchingConfigurations ''x1000c0s0b0n0'')"
          "sublist ''{{.Identifier}}'' (MinimalIPXETemplate ?e)"
    by (simp_all add: example_resolve_nodeA example_find_none exampleEnv_more sublist_code)
  note m = GenerateBootScript_recovers [OF c, THEN conjunct2, THEN conjunct2, rule_format,
      of nodeA ?s1 "NoMatchingConfigurations ''x1000c0s0b0n0''"]
  from m d have "fst (GenerateBootScript ?e 0 NewBootScriptController ''x1000c0s0b0n0'' [])
       = (generateMinimalScript ?e ''x1000c0s0b0n0'', None)
     \<and> sublist ''x1000c0s0b0n0''
        (fst (fst (GenerateBootScript ?e 0 NewBootScriptController ''x1000c0s0b0n0'' [])))"
    by blast
  ultimately show ?thesis by blast
qed

theorem NodeNotFound_minimal_counterexample:
  "fst (GenerateBootScript (exampleEnv [] []) 0 NewBootScriptController ''9999'' []) =
     (''echo boot script error: Node resolution failed: node not found for identifier 9999'', None)
   \<and> generateMinimalScript (exampleEnv [] []) ''9999'' = ''echo no boot configuration for 9999''
   \<and> fst (fst (GenerateBootScript (exampleEnv [] []) 0 NewBootScriptController ''9999'' []))
       \<noteq> generateMinimalScript (exampleEnv [] []) ''9999''"
  by (simp add: example_9999 generateMinimalScript_def exampleEnv_more ReplaceAll_def)

text \<open>
  C10.  An identifier of kind Unknown selects no node, whatever the inventory holds:
  \<^verbatim>\<open>resolveNode\<close> returns the node-not-found error when the inventory answers, and an
  error in every case; so on a cache miss \<^verbatim>\<open>GenerateBootScript\<close> answers with the
  error script built from that error.
\<close>

theorem Unknown_identifier_error_script:
  assumes "Type (parseNodeIdentifier (validation e) identifier) = IdentifierUnknown"
  shows "(\<forall>nodes. GetNodes e = Inr nodes \<longrightarrow>
            fst (resolveNode e s (parseNodeIdentifier (validation e) identifier)) =
              Inl (NodeNotFound identifier))
       \<and> (\<exists>err. fst (resolveNode e s (parseNodeIdentifier (validation e) identifier)) = Inl err \<and>
            (cacheGet (cache s) now (generateCacheKey e identifier profile) = None \<longrightarrow>
               fst (GenerateBootScript e now s identifier profile) =
                 (generateErrorScript e (''Node resolution failed: '' @ errorString err), None)))"
proof -
  let ?id = "parseNodeIdentifier (validation e) identifier"
  have sc: "scanNodes ?id nodes = None" for nodes
    using assms by (rule scanNodes_Unknown)
  have p1: "\<forall>nodes. GetNodes e = Inr nodes \<longrightarrow> fst (resolveNode e s ?id) = Inl (NodeNotFound identifier)"
    by (simp add: resolveNode_fst sc parse_Value)
  obtain err where err: "fst (resolveNode e s ?id) = Inl err"
    by (cases "GetNodes e") (simp_all add: resolveNode_fst sc)
  have p2: "cacheGet (cache s) now (generateCacheKey e identifier profile) = None \<longrightarrow>
          fst (GenerateBootScript e now s identifier profile) =
            (generateErrorScript e (''Node resolution failed: '' @ errorString err), None)"
    using GenerateBootScript_resolve_fails [OF _ err] by blast
  show ?thesis
  proof (intro conjI)
    show "\<forall>nodes. GetNodes e = Inr nodes \<longrightarrow>
            fst (resolveNode e s ?id) = Inl (NodeNotFound identifier)"
      by (rule p1)
    show "\<exists>err. fst (resolveNode e s ?id) = Inl err \<and>
            (cacheGet (cache s) now (generateCacheKey e identifier profile) = None \<longrightarrow>
               fst (GenerateBootScript e now s identifier profile) =
                 (generateErrorScript e (''Node resolution failed: '' @ errorString err), None))"
      using err p2 by (intro exI [of _ err] conjI)
  qed
qed

theorem Unknown_identifier_error_script_witness:
  "Type (parseNodeIdentifier (validation (exampleEnv [nodeA] [cfgCatchAll])) ''node-7'') = IdentifierUnknown
   \<and> fst (resolveNode (exampleEnv [nodeA] [cfgCatchAll]) NewBootScriptController
            (parseNodeIdentifier (validation (exampleEnv [nodeA] [cfgCatchAll])) ''node-7''))
       = Inl (NodeNotFound ''node-7'')
   \<and> fst (GenerateBootScript (exampleEnv [nodeA] [cfgCatchAll]) 0 NewBootScriptController ''node-7'' [])
       = (''echo boot script error: Node resolution failed: node not found for identifier node-7'', None)"
proof -
  let ?e = "exampleEnv [nodeA] [cfgCatchAll]"
  have a: "Type (parseNodeIdentifier (validation ?e) ''node-7'') = IdentifierUnknown"
    by (simp add: exampleEnv_fields parseNodeIdentifier_def exampleValidation_def Atoi_def isDigit_def)
  have b: "GetNodes ?e = Inr [nodeA]"
    by (simp add: exampleEnv_fields)
  have c: "cacheGet (cache NewBootScriptController) 0 (generateCacheKey ?e ''node-7'' []) = None"
    by (rule fresh_cache_miss)
  from Unknown_identifier_error_script [OF a, of NewBootScriptController 0 "[]"] b c
  have "fst (resolveNode ?e NewBootScriptController (parseNodeIdentifier (validation ?e) ''node-7''))
          = Inl (NodeNotFound ''node-7'')"
    and "fst (GenerateBootScript ?e 0 NewBootScriptController ''node-7'' []) =
          (generateErrorScript ?e (''Node resolution failed: '' @ errorString (NodeNotFound ''node-7'')), None)"
    by auto
  with a show ?thesis
    by (simp add: generateErrorScript_def exampleEnv_more ReplaceAll_def)
qed

subsection \<open>The cache key of a repeated request\<close>

lemma cacheGet_after_Set:
  "cacheGet (cacheSet c now key script nodeRef configRef) now' key' =
     (if key' = key then (if now + ttl c < now' then None else Some script)
      else cacheGet c now' key')"
  by (simp add: cacheGet_def cacheSet_def)

text \<open>
  After a successful call the script is stored under the key of the identifier and the
  configuration's name; a repeated call looks under the key of the identifier and the
  profile.  When the two keys differ the repeated call misses the cache, whatever the
  instant.
\<close>

lemma repeated_call_misses:
  assumes "cacheGet (cache s) now (generateCacheKey e identifier profile) = None"
    and "resolveNode e s (parseNodeIdentifier (validation e) identifier) = (Inr node, s1)"
    and "findBootConfiguration e s1 node profile = (Inr cfg, s2)"
    and "buildIPXEScript e cfg node = Inr script"
    and "generateCacheKey e identifier (Name cfg) \<noteq> generateCacheKey e identifier profile"
    and "cacheGet (cache s2) now' (generateCacheKey e identifier profile) = None"
  shows "cacheGet (cache (snd (GenerateBootScript e now s identifier profile))) now'
           (generateCacheKey e identifier profile) = None"
  using assms by (simp add: GenerateBootScript_def Let_def cacheGet_after_Set)

text \<open>
  C6, at a failing input.  Two identical requests for \<open>x1000c0s0b0n0\<close> with the empty
  profile, one nanosecond apart, against a store whose best configuration is named
  \<open>by-mac\<close>: the scripts are the same, but the first call stored its script under the
  key of the configuration's name, the second call misses the cache and queries the
  inventory and the configurations again.
\<close>

theorem repeated_request_resolves_again:
  "fst (GenerateBootScript (exampleEnv [nodeA] [cfgByMAC, cfgByNID]) 0 NewBootScriptController
          ''x1000c0s0b0n0'' []) = (''kernel http://boot/vmlinuz'', None)
   \<and> cacheGet (cache (snd (GenerateBootScript (exampleEnv [nodeA] [cfgByMAC, cfgByNID]) 0
                              NewBootScriptController ''x1000c0s0b0n0'' []))) 1
        ''x1000c0s0b0n0:by-mac'' = Some ''kernel http://boot/vmlinuz''
   \<and> cacheGet (cache (snd (GenerateBootScript (exampleEnv [nodeA] [cfgByMAC, cfgByNID]) 0
                              NewBootScriptController ''x1000c0s0b0n0'' []))) 1
        (generateCacheKey (exampleEnv [nodeA] [cfgByMAC, cfgByNID]) ''x1000c0s0b0n0'' []) = None
   \<and> fst (GenerateBootScript (exampleEnv [nodeA] [cfgByMAC, cfgByNID]) 1
          (snd (GenerateBootScript (exampleEnv [nodeA] [cfgByMAC, cfgByNID]) 0
                  NewBootScriptController ''x1000c0s0b0n0'' []))
          ''x1000c0s0b0n0'' []) = (''kernel http://boot/vmlinuz'', None)
   \<and> calls (snd (GenerateBootScript (exampleEnv [nodeA] [cfgByMAC, cfgByNID]) 1
          (snd (GenerateBootScript (exampleEnv [nodeA] [cfgByMAC, cfgByNID]) 0
                  NewBootScriptController ''x1000c0s0b0n0'' []))
          ''x1000c0s0b0n0'' []))
       = [CallGetNodes, CallGetBootConfigurations, CallGetNodes, CallGetBootConfigurations]"
proof -
  let ?e = "exampleEnv [nodeA] [cfgByMAC, cfgByNID]"
  let ?s1 = "NewBootScriptController\<lparr>calls := calls NewBootScriptController @
                 [CallGetNodes, CallGetBootConfigurations],
               cache := cacheSet (cache NewBootScriptController) 0 ''x1000c0s0b0n0:by-mac''
                 ''kernel http://boot/vmlinuz'' ''x1000c0s0b0n0'' ''by-mac''\<rparr>"
  have first: "GenerateBootScript ?e 0 NewBootScriptController ''x1000c0s0b0n0'' [] =
                 ((''kernel http://boot/vmlinuz'', None), ?s1)"
    by (rule example_run_byMAC) (rule fresh_cache_miss)
  have miss: "cacheGet (cache ?s1) 1 ''x1000c0s0b0n0:'' = None"
    by (simp add: cacheGet_after_Set fresh_cache_miss)
  have hit: "cacheGet (cache ?s1) 1 ''x1000c0s0b0n0:by-mac'' = Some ''kernel http://boot/vmlinuz''"
    by (simp add: cacheGet_after_Set NewBootScriptController_def NewScriptCache_def Minute_def)
  have second: "GenerateBootScript ?e 1 ?s1 ''x1000c0s0b0n0'' [] =
     ((''kernel http://boot/vmlinuz'', None),
      ?s1\<lparr>calls := calls ?s1 @ [CallGetNodes, CallGetBootConfigurations],
        cache := cacheSet (cache ?s1) 1 ''x1000c0s0b0n0:by-mac'' ''kernel http://boot/vmlinuz''
                   ''x1000c0s0b0n0'' ''by-mac''\<rparr>)"
    by (rule example_run_byMAC) (rule miss)
  show ?thesis
    unfolding first snd_conv fst_conv second
    using miss hit by (simp add: exampleEnv_more NewBootScriptController_def)
qed

subsection \<open>The provider fallback\<close>

lemma GenerateBootScriptWithFallback_eq:
  "GenerateBootScriptWithFallback e nodeProvider now now' s identifier =
     GenerateBootScript e now s identifier []"
proof (cases "GenerateBootScript e now s identifier []")
  case (Pair r s1)
  obtain script err where r: "r = (script, err)" by (cases r)
  from GenerateBootScript_nil_error [of e now s "identifier" "[]"] Pair r have "err = None"
    by simp
  with Pair r show ?thesis
    by (simp add: GenerateBootScriptWithFallback_def)
qed

text \<open>
  C7, at a failing input.  Identifier \<open>9999\<close>, an empty inventory and a configured
  provider that resolves every identifier: \<^verbatim>\<open>GenerateBootScriptWithFallback\<close> returns
  the error script of the primary resolution; the only call recorded is the inventory
  query, the provider is not consulted.
\<close>

theorem fallback_skips_provider:
  "exampleProvider ''9999'' = Inr nodeA
   \<and> GenerateBootScriptWithFallback (exampleEnv [] []) (Some exampleProvider) 0 1
        NewBootScriptController ''9999''
      = ((''echo boot script error: Node resolution failed: node not found for identifier 9999'',
          None),
         NewBootScriptController\<lparr>calls := [CallGetNodes]\<rparr>)
   \<and> generateMinimalScript (exampleEnv [] []) ''9999'' = ''echo no boot configuration for 9999''"
proof -
  let ?e = "exampleEnv [] []"
  have "resolveNode ?e NewBootScriptController (parseNodeIdentifier (validation ?e) ''9999'') =
          (Inl (NodeNotFound ''9999''), NewBootScriptController\<lparr>calls := [CallGetNodes]\<rparr>)"
    by (simp add: resolveNode_def exampleEnv_fields parse_Value NewBootScriptController_def)
  then have "GenerateBootScript ?e 0 NewBootScriptController ''9999'' [] =
      ((''echo boot script error: Node resolution failed: node not found for identifier 9999'',
          None), NewBootScriptController\<lparr>calls := [CallGetNodes]\<rparr>)"
    by (simp add: GenerateBootScript_def fresh_cache_miss generateErrorScript_def exampleEnv_more
        ReplaceAll_def)
  then show ?thesis
    by (simp add: GenerateBootScriptWithFallback_eq exampleProvider_def generateMinimalScript_def
        exampleEnv_more ReplaceAll_def)
qed

end
